theory Spec2Isabelle
  imports Main
begin

section \<open>The C++ types the library computes with\<close>

text \<open>
  \<^verbatim>\<open>better_exception_ptr.h\<close> is a header of templates: which handler a call invokes is
  decided when the program runs, whether the call exists at all is decided when the
  templates are instantiated. Both phases are modelled. A failed instantiation
  (a \<^verbatim>\<open>static_assert\<close>, a missing \<^verbatim>\<open>common_type\<close>, an ill-formed statement) is the
  value \<open>Inl e\<close>; a call that was instantiated returns \<open>Inr\<close> of what it does at run time.

  Parameter types are kept in a normal form: a cv-qualifier sits on the named type or on
  the pointer it qualifies; references carry none.
\<close>

datatype cv = Unqualified | Const | Volatile | ConstVolatile

datatype ctype =
    Void
  | Named cv string
  | Pointer cv ctype
  | LRef ctype
  | RRef ctype

text \<open>\<^verbatim>\<open>struct catch_all_tag {};\<close> (line 11)\<close>

definition catch_all_tag :: ctype where
  "catch_all_tag = Named Unqualified ''stdx::detail::catch_all_tag''"

fun is_pointer_v :: "ctype \<Rightarrow> bool" where
  "is_pointer_v (Pointer q t) = True"
| "is_pointer_v t = False"

fun is_lvalue_reference_v :: "ctype \<Rightarrow> bool" where
  "is_lvalue_reference_v (LRef t) = True"
| "is_lvalue_reference_v t = False"

fun is_rvalue_reference_v :: "ctype \<Rightarrow> bool" where
  "is_rvalue_reference_v (RRef t) = True"
| "is_rvalue_reference_v t = False"

definition is_reference_v :: "ctype \<Rightarrow> bool" where
  "is_reference_v t = (is_lvalue_reference_v t \<or> is_rvalue_reference_v t)"

fun remove_reference_t :: "ctype \<Rightarrow> ctype" where
  "remove_reference_t (LRef t) = t"
| "remove_reference_t (RRef t) = t"
| "remove_reference_t t = t"

fun remove_cv_t :: "ctype \<Rightarrow> ctype" where
  "remove_cv_t (Named q n) = Named Unqualified n"
| "remove_cv_t (Pointer q t) = Pointer Unqualified t"
| "remove_cv_t t = t"

definition add_pointer_t :: "ctype \<Rightarrow> ctype" where
  "add_pointer_t t = Pointer Unqualified (remove_reference_t t)"

text \<open>
  \<^verbatim>\<open>typeid(T)\<close>: the \<^verbatim>\<open>std::type_info\<close> of a type is that of the type it refers to when
  \<open>T\<close> is a reference, with the top-level cv-qualifiers dropped. A type identity token is
  therefore a cv-unqualified type that is not a reference.
\<close>

type_synonym type_info = ctype

definition typeid :: "ctype \<Rightarrow> type_info" where
  "typeid t = remove_cv_t (remove_reference_t t)"

text \<open>
  Return types of handlers. The library never looks inside a returned value; it only
  unifies the return types with \<^verbatim>\<open>std::common_type_t\<close> and converts. The model covers
  handlers that return \<^verbatim>\<open>void\<close>, \<^verbatim>\<open>bool\<close> or \<^verbatim>\<open>int\<close>.
\<close>

datatype rtype = RVoid | RBool | RInt

datatype val = VVoid | VBool bool | VInt int

text \<open>
  Implicit conversion of a value to a return type: \<^verbatim>\<open>bool\<close> to \<^verbatim>\<open>int\<close> gives 0 or 1,
  \<^verbatim>\<open>int\<close> to \<^verbatim>\<open>bool\<close> tests for non-zero, anything returned from a \<^verbatim>\<open>void\<close> function is
  discarded.
\<close>

fun convert :: "rtype \<Rightarrow> val \<Rightarrow> val" where
  "convert RVoid v = VVoid"
| "convert RBool (VBool b) = VBool b"
| "convert RBool (VInt i) = VBool (i \<noteq> 0)"
| "convert RBool VVoid = VBool False"
| "convert RInt (VBool b) = VInt (if b then 1 else 0)"
| "convert RInt (VInt i) = VInt i"
| "convert RInt VVoid = VInt 0"

text \<open>
  \<^verbatim>\<open>std::common_type\<close> of two types is the decayed type of
  \<^verbatim>\<open>false ? declval<T1>() : declval<T2>()\<close> when that expression is well-formed, and has
  no member \<^verbatim>\<open>type\<close> otherwise: two \<^verbatim>\<open>void\<close> operands give \<^verbatim>\<open>void\<close>, a \<^verbatim>\<open>void\<close> operand
  beside a non-\<^verbatim>\<open>void\<close> one is ill-formed, \<^verbatim>\<open>bool\<close> and \<^verbatim>\<open>int\<close> promote to \<^verbatim>\<open>int\<close>. For
  more types it folds from the left; for one type it is \<^verbatim>\<open>common_type<T, T>\<close>; for none
  there is no member.
\<close>

fun common_type2 :: "rtype \<Rightarrow> rtype \<Rightarrow> rtype option" where
  "common_type2 RVoid RVoid = Some RVoid"
| "common_type2 RVoid t = None"
| "common_type2 t RVoid = None"
| "common_type2 RBool RBool = Some RBool"
| "common_type2 t1 t2 = Some RInt"

fun common_type :: "rtype list \<Rightarrow> rtype option" where
  "common_type [] = None"
| "common_type [t] = common_type2 t t"
| "common_type (t1 # t2 # ts) =
     (case common_type2 t1 t2 of None \<Rightarrow> None | Some c \<Rightarrow> common_type (c # ts))"

section \<open>Errors of instantiation, outcomes of execution\<close>

datatype error =
    no_ArgumentImpl_specialization
  | no_common_type
  | static_assert_not_catch_all
  | static_assert_reference_or_pointer
  | cannot_bind_rvalue_reference
  | no_conversion_of_returned_value
  | return_of_void_expression

type_synonym addr = nat

definition nullptr :: addr where
  "nullptr = 0"

text \<open>
  A raised error object: the type identity of the payload and where the payload lives.
  A \<^verbatim>\<open>std::exception_ptr\<close> is null or refers to such an object. Reference counting is
  not modelled: no operation of the header observes it.
\<close>

record exception_object =
  obj_type :: type_info
  obj_addr :: addr

type_synonym exception_ptr = "exception_object option"

text \<open>
  What a call does when it runs: it returns a value, leaves by a raised exception, ends
  the process in \<^verbatim>\<open>std::terminate\<close>, or has no defined behaviour. A terminated process
  is observed together with the error that was active when \<^verbatim>\<open>std::terminate\<close> was called
  (the handle \<^verbatim>\<open>std::current_exception\<close> gives the terminate handler; null when no error
  was being handled).
\<close>

datatype 'a outcome =
    Returns 'a
  | Raises exception_object
  | Terminates exception_ptr
  | Undefined_behaviour

section \<open>Handler Signature Inspector\<close>

text \<open>
  A handler is a closure object passed as a temporary. Of its \<^verbatim>\<open>operator()\<close> the
  library sees the return type, the parameter types and whether the parameter list ends
  in an ellipsis; \<open>h_body\<close> is what a call does, given the address its argument refers to
  (or, for a pointer parameter, holds) and the state of the program. The value a body
  produces is converted to the declared return type, as its \<^verbatim>\<open>return\<close> statement does.
\<close>

record 's handler =
  h_ret :: rtype
  h_params :: "ctype list"
  h_ellipsis :: bool
  h_body :: "addr \<Rightarrow> 's \<Rightarrow> val outcome \<times> 's"

definition invoke :: "'s handler \<Rightarrow> addr \<Rightarrow> 's \<Rightarrow> val outcome \<times> 's" where
  "invoke h a s = (case h_body h a s of (r, s') \<Rightarrow> (map_outcome (convert (h_ret h)) r, s'))"

text \<open>
  \<^verbatim>\<open>ArgumentImpl\<close> (lines 13 to 38). The member-pointer specialisations strip the class
  and \<^verbatim>\<open>const\<close>; three specialisations on function types remain: one parameter, only
  an ellipsis, no parameter. Any other parameter list falls back to the primary
  template, which asks for \<^verbatim>\<open>&Class::operator()\<close> of a function type and is ill-formed.
\<close>

fun ArgumentImpl :: "ctype list \<Rightarrow> bool \<Rightarrow> error + ctype" where
  "ArgumentImpl [arg] False = Inr arg"
| "ArgumentImpl [] True = Inr catch_all_tag"
| "ArgumentImpl [] False = Inr Void"
| "ArgumentImpl args ellipsis = Inl no_ArgumentImpl_specialization"

definition ArgumentOf :: "'s handler \<Rightarrow> error + ctype" where
  "ArgumentOf h = ArgumentImpl (h_params h) (h_ellipsis h)"

text \<open>
  \<^verbatim>\<open>ReturnOfImpl\<close> (lines 43 to 50): \<^verbatim>\<open>std::result_of\<close> of calling the handler with its
  argument type (with nothing when that type is \<^verbatim>\<open>void\<close>), which is the return type of
  its \<^verbatim>\<open>operator()\<close>; it needs \<^verbatim>\<open>ArgumentOf\<close> to exist.
\<close>

definition ReturnOf :: "'s handler \<Rightarrow> error + rtype" where
  "ReturnOf h = (case ArgumentOf h of Inl e \<Rightarrow> Inl e | Inr arg \<Rightarrow> Inr (h_ret h))"

fun ReturnOfs :: "'s handler list \<Rightarrow> error + rtype list" where
  "ReturnOfs [] = Inr []"
| "ReturnOfs (h # rest) =
     (case ReturnOf h of Inl e \<Rightarrow> Inl e
      | Inr r \<Rightarrow> (case ReturnOfs rest of Inl e \<Rightarrow> Inl e | Inr rs \<Rightarrow> Inr (r # rs)))"

text \<open>
  \<^verbatim>\<open>std::common_type_t<detail::ReturnOf<Handler>, detail::ReturnOf<Rest>...>\<close>
  (lines 69 to 70 and 97).
\<close>

definition CommonType :: "'s handler list \<Rightarrow> error + rtype" where
  "CommonType hs =
     (case ReturnOfs hs of Inl e \<Rightarrow> Inl e
      | Inr rs \<Rightarrow> (case common_type rs of None \<Rightarrow> Inl no_common_type | Some c \<Rightarrow> Inr c))"

section \<open>Type Identity Resolver\<close>

text \<open>
  \<^verbatim>\<open>detail::try_catch\<close> is declared in \<^verbatim>\<open>abi_details.h\<close>: given the handle and a
  \<^verbatim>\<open>std::type_info\<close> it yields the raw address of the payload or nothing. The
  functions of this header take it as the parameter \<open>dtc\<close>.
\<close>

type_synonym abi_try_catch = "exception_ptr \<Rightarrow> type_info \<Rightarrow> addr option"

text \<open>
  The result of \<^verbatim>\<open>try_catch<T>\<close> (lines 107 to 124) is a \<^verbatim>\<open>std::optional<T>\<close> when \<open>T\<close>
  is a pointer type and the plain pointer \<^verbatim>\<open>std::add_pointer_t<T>\<close> otherwise. The type of
  \<^verbatim>\<open>*raw\<close> is declared in \<^verbatim>\<open>abi_details.h\<close>; \<^verbatim>\<open>static_cast<target>(*raw)\<close> is taken to be
  well-formed for both shapes and to keep the address.
\<close>

datatype view_type = optional_of ctype | plain ctype

datatype view = optional_view "addr option" | pointer_view addr

definition try_catch_target :: "ctype \<Rightarrow> view_type" where
  "try_catch_target T = (if is_pointer_v T then optional_of T else plain (add_pointer_t T))"

definition static_cast_target :: "ctype \<Rightarrow> addr \<Rightarrow> view" where
  "static_cast_target T raw = (if is_pointer_v T then optional_view (Some raw) else pointer_view raw)"

definition empty_target :: "ctype \<Rightarrow> view" where
  "empty_target T = (if is_pointer_v T then optional_view None else pointer_view nullptr)"

definition try_catch_static_assert :: "ctype \<Rightarrow> bool" where
  "try_catch_static_assert T = (is_reference_v T \<or> is_pointer_v T)"

definition try_catch :: "abi_try_catch \<Rightarrow> exception_ptr \<Rightarrow> ctype \<Rightarrow> error + view" where
  "try_catch dtc ex T =
     (if \<not> try_catch_static_assert T then Inl static_assert_reference_or_pointer
      else (case dtc ex (typeid T) of
              Some raw \<Rightarrow> Inr (static_cast_target T raw)
            | None \<Rightarrow> Inr (empty_target T)))"

text \<open>
  \<^verbatim>\<open>if (auto caught = ...) { ... *caught ... }\<close>: a plain pointer is tested against null
  and dereferenced, an optional is tested for a value and gives the pointer it holds.
\<close>

fun caught_value :: "view \<Rightarrow> addr option" where
  "caught_value (pointer_view a) = (if a = nullptr then None else Some a)"
| "caught_value (optional_view a) = a"

section \<open>Dispatch Engine\<close>

text \<open>
  The declared result of \<^verbatim>\<open>handle\<close> (line 72): \<^verbatim>\<open>bool\<close> when the common type is \<^verbatim>\<open>void\<close>,
  \<^verbatim>\<open>std::optional<CommonType>\<close> otherwise.
\<close>

datatype result_type = bool_result | optional_result rtype

datatype result = result_bool bool | result_optional "val option"

definition handle_result_type :: "rtype \<Rightarrow> result_type" where
  "handle_result_type ct = (if ct = RVoid then bool_result else optional_result ct)"

text \<open>
  \<^verbatim>\<open>return handle(std::forward<Rest>(rest)...);\<close> converts the result of the shorter
  chain to the result type of this one. A \<^verbatim>\<open>bool\<close> stays, or initialises an optional
  that then holds it; an optional converts to an optional of a wider value type;
  an optional does not convert implicitly to \<^verbatim>\<open>bool\<close>.
\<close>

fun convertible :: "result_type \<Rightarrow> result_type \<Rightarrow> bool" where
  "convertible bool_result bool_result = True"
| "convertible bool_result (optional_result c) = (c \<noteq> RVoid)"
| "convertible (optional_result c') (optional_result c) = (c' = c \<or> (c' = RBool \<and> c = RInt))"
| "convertible (optional_result c') bool_result = False"

fun convert_result :: "result_type \<Rightarrow> result \<Rightarrow> result" where
  "convert_result bool_result r = r"
| "convert_result (optional_result c) (result_bool b) = result_optional (Some (convert c (VBool b)))"
| "convert_result (optional_result c) (result_optional v) = result_optional (map_option (convert c) v)"

text \<open>
  Instantiating \<^verbatim>\<open>handle(handler, rest...)\<close> (lines 66 to 90), in the order the compiler
  meets the constructs: the default template argument \<open>CommonType\<close>, \<open>Argument\<close> and the
  \<^verbatim>\<open>static_assert\<close> of line 75, the instantiation of \<^verbatim>\<open>try_catch<Argument>\<close> with its own
  \<^verbatim>\<open>static_assert\<close> (line 113), the call \<^verbatim>\<open>handler(*caught)\<close> whose argument is an lvalue
  (a parameter of rvalue reference type does not bind to it), and the last statement,
  which is instantiated also when \<open>Rest\<close> is empty, since it is not the \<^verbatim>\<open>else\<close> branch
  of the \<^verbatim>\<open>if constexpr\<close> before it. The overload without arguments (line 62) is not a
  template and returns \<^verbatim>\<open>bool\<close>.
\<close>

fun handle_instantiation :: "'s handler list \<Rightarrow> error + result_type" where
  "handle_instantiation [] = Inr bool_result"
| "handle_instantiation (h # rest) =
     (case CommonType (h # rest) of Inl e \<Rightarrow> Inl e
      | Inr ct \<Rightarrow>
     (case ArgumentOf h of Inl e \<Rightarrow> Inl e
      | Inr arg \<Rightarrow>
        if arg = catch_all_tag then Inl static_assert_not_catch_all
        else if \<not> try_catch_static_assert arg then Inl static_assert_reference_or_pointer
        else if is_rvalue_reference_v arg then Inl cannot_bind_rvalue_reference
        else (case handle_instantiation rest of Inl e \<Rightarrow> Inl e
              | Inr rest_type \<Rightarrow>
                  if convertible rest_type (handle_result_type ct)
                  then Inr (handle_result_type ct)
                  else Inl no_conversion_of_returned_value)))"

text \<open>What a matching handler's value becomes (lines 78 to 83), and \<^verbatim>\<open>return {};\<close> (line 87).\<close>

fun matched_result :: "result_type \<Rightarrow> val \<Rightarrow> result" where
  "matched_result bool_result v = result_bool True"
| "matched_result (optional_result c) v = result_optional (Some (convert c v))"

fun empty_result :: "result_type \<Rightarrow> result" where
  "empty_result bool_result = result_bool False"
| "empty_result (optional_result c) = result_optional None"

text \<open>
  \<^verbatim>\<open>exception_ptr::handle\<close> (lines 62 to 90). The handlers are the list \<open>hs\<close>; \<open>s\<close> is
  the state of the program the handler bodies act on.
\<close>

fun handle :: "abi_try_catch \<Rightarrow> exception_ptr \<Rightarrow> 's handler list \<Rightarrow> 's
    \<Rightarrow> error + (result outcome \<times> 's)" where
  "handle dtc ex [] s = Inr (Returns (result_bool False), s)"
| "handle dtc ex (h # rest) s =
     (case handle_instantiation (h # rest) of Inl e \<Rightarrow> Inl e
      | Inr ty \<Rightarrow>
     (case ArgumentOf h of Inl e \<Rightarrow> Inl e
      | Inr arg \<Rightarrow>
     (case try_catch dtc ex arg of Inl e \<Rightarrow> Inl e
      | Inr caught \<Rightarrow>
     (case caught_value caught of
        Some a \<Rightarrow>
          (case invoke h a s of (r, s') \<Rightarrow> Inr (map_outcome (matched_result ty) r, s'))
      | None \<Rightarrow>
          if rest = [] then Inr (Returns (empty_result ty), s)
          else (case handle dtc ex rest s of Inl e \<Rightarrow> Inl e
                | Inr (r, s') \<Rightarrow> Inr (map_outcome (convert_result ty) r, s'))))))"

section \<open>The hosting runtime\<close>

text \<open>
  Modelled from the spec: \<^verbatim>\<open>std::rethrow_exception\<close>, the runtime's primitive that
  re-raises a handle's payload (4.1, 6): it leaves by raising the object the handle
  refers to. The C++ standard requires the handle not to be null.
\<close>

definition std_rethrow_exception :: "exception_ptr \<Rightarrow> 'a outcome" where
  "std_rethrow_exception ex =
     (case ex of None \<Rightarrow> Undefined_behaviour | Some obj \<Rightarrow> Raises obj)"

text \<open>
  Modelled from the spec: the state of the hosting runtime (4.1, 6), which the header
  only consumes. It keeps the raised objects whose catch clauses are running, innermost
  first.
\<close>

record runtime =
  handled :: "exception_object list"

text \<open>
  Modelled from the spec: entering a catch clause with a raised object makes that object
  the currently active error.
\<close>

definition enter_catch :: "exception_object \<Rightarrow> runtime \<Rightarrow> runtime" where
  "enter_catch obj rt = rt\<lparr>handled := obj # handled rt\<rparr>"

text \<open>
  Modelled from the spec: \<^verbatim>\<open>std::current_exception\<close>, the runtime's primitive that
  captures the currently active raised error into a handle; the handle is null when no
  error is active.
\<close>

definition std_current_exception :: "runtime \<Rightarrow> exception_ptr" where
  "std_current_exception rt = (case handled rt of [] \<Rightarrow> None | obj # objs \<Rightarrow> Some obj)"

text \<open>
  \<^verbatim>\<open>std::terminate\<close> ends the process, with whatever error is active in the runtime at
  the call. \<^verbatim>\<open>try { body } catch (...) { handler }\<close> runs the handler on whatever the body
  raises.
\<close>

definition std_terminate :: "runtime \<Rightarrow> 'a outcome" where
  "std_terminate rt = Terminates (std_current_exception rt)"

definition catch_all :: "'a outcome \<Rightarrow> (exception_object \<Rightarrow> 'a outcome) \<Rightarrow> 'a outcome" where
  "catch_all body handler = (case body of Raises obj \<Rightarrow> handler obj | r \<Rightarrow> r)"

section \<open>Escalation Path\<close>

text \<open>
  \<^verbatim>\<open>exception_ptr::terminate_with_active\<close> (lines 126 to 132), called in the runtime
  state \<open>rt\<close>: the handle is re-raised inside a \<^verbatim>\<open>try\<close> block; the catch-all clause is
  entered with the re-raised object and calls \<^verbatim>\<open>std::terminate\<close>.
\<close>

definition terminate_with_active :: "exception_ptr \<Rightarrow> runtime \<Rightarrow> 'a outcome" where
  "terminate_with_active ex rt =
     catch_all (std_rethrow_exception ex) (\<lambda>obj. std_terminate (enter_catch obj rt))"

text \<open>
  A \<^verbatim>\<open>return\<close> statement: an operand of type \<^verbatim>\<open>void\<close> is allowed only in a function
  returning \<^verbatim>\<open>void\<close>, and such a function returns no value.
\<close>

fun return_statement :: "rtype \<Rightarrow> rtype \<Rightarrow> error option" where
  "return_statement RVoid RVoid = None"
| "return_statement RVoid t = Some return_of_void_expression"
| "return_statement t RVoid = Some no_conversion_of_returned_value"
| "return_statement t1 t2 = None"

text \<open>
  Instantiating \<^verbatim>\<open>handle_or_terminate(handler, rest...)\<close> (lines 96 to 105): the declared
  return type is the common type; \<^verbatim>\<open>return handler(*caught);\<close> and
  \<^verbatim>\<open>return handle_or_terminate(std::forward<Rest>(rest)...);\<close> are return statements of a
  function of that type. The overload without arguments (line 92) returns \<^verbatim>\<open>void\<close>.
\<close>

fun handle_or_terminate_instantiation :: "'s handler list \<Rightarrow> error + rtype" where
  "handle_or_terminate_instantiation [] = Inr RVoid"
| "handle_or_terminate_instantiation (h # rest) =
     (case CommonType (h # rest) of Inl e \<Rightarrow> Inl e
      | Inr ct \<Rightarrow>
     (case ArgumentOf h of Inl e \<Rightarrow> Inl e
      | Inr arg \<Rightarrow>
        if arg = catch_all_tag then Inl static_assert_not_catch_all
        else if \<not> try_catch_static_assert arg then Inl static_assert_reference_or_pointer
        else if is_rvalue_reference_v arg then Inl cannot_bind_rvalue_reference
        else (case return_statement (h_ret h) ct of Some e \<Rightarrow> Inl e
              | None \<Rightarrow>
             (case handle_or_terminate_instantiation rest of Inl e \<Rightarrow> Inl e
              | Inr rest_type \<Rightarrow>
                 (case return_statement rest_type ct of Some e \<Rightarrow> Inl e
                  | None \<Rightarrow> Inr ct)))))"

text \<open>
  \<^verbatim>\<open>exception_ptr::handle_or_terminate\<close> (lines 92 to 105), called in the runtime state
  \<open>rt\<close> and the program state \<open>s\<close>.
\<close>

fun handle_or_terminate :: "abi_try_catch \<Rightarrow> exception_ptr \<Rightarrow> 's handler list \<Rightarrow> runtime
    \<Rightarrow> 's \<Rightarrow> error + (val outcome \<times> 's)" where
  "handle_or_terminate dtc ex [] rt s = Inr (terminate_with_active ex rt, s)"
| "handle_or_terminate dtc ex (h # rest) rt s =
     (case handle_or_terminate_instantiation (h # rest) of Inl e \<Rightarrow> Inl e
      | Inr ct \<Rightarrow>
     (case ArgumentOf h of Inl e \<Rightarrow> Inl e
      | Inr arg \<Rightarrow>
     (case try_catch dtc ex arg of Inl e \<Rightarrow> Inl e
      | Inr caught \<Rightarrow>
     (case caught_value caught of
        Some a \<Rightarrow>
          (case invoke h a s of (r, s') \<Rightarrow> Inr (map_outcome (convert ct) r, s'))
      | None \<Rightarrow>
          (case handle_or_terminate dtc ex rest rt s of Inl e \<Rightarrow> Inl e
           | Inr (r, s') \<Rightarrow> Inr (map_outcome (convert ct) r, s'))))))"

section \<open>Error Handle: the low level interface\<close>

text \<open>
  Modelled from the spec: \<^verbatim>\<open>detail::type\<close> of \<^verbatim>\<open>abi_details.h\<close>, a header that is not
  among the sources. The spec (4.1) has it return the payload's type identity token; a
  null handle has no payload.
\<close>

definition detail_type :: "exception_ptr \<Rightarrow> type_info option" where
  "detail_type ex = map_option obj_type ex"

text \<open>
  Modelled from the spec: \<^verbatim>\<open>detail::get_raw_ptr\<close> of \<^verbatim>\<open>abi_details.h\<close>. The spec (4.1)
  has it return an untyped pointer to the payload; for a null handle it is null.
\<close>

definition detail_get_raw_ptr :: "exception_ptr \<Rightarrow> addr" where
  "detail_get_raw_ptr ex = (case ex of None \<Rightarrow> nullptr | Some obj \<Rightarrow> obj_addr obj)"

text \<open>\<^verbatim>\<open>exception_ptr::type\<close> and \<^verbatim>\<open>exception_ptr::get_raw_ptr\<close> (lines 138 to 144).\<close>

definition exception_ptr_type :: "exception_ptr \<Rightarrow> type_info option" where
  "exception_ptr_type ex = detail_type ex"

definition get_raw_ptr :: "exception_ptr \<Rightarrow> addr" where
  "get_raw_ptr ex = detail_get_raw_ptr ex"

text \<open>
  Modelled from the spec: \<^verbatim>\<open>detail::try_catch\<close> of \<^verbatim>\<open>abi_details.h\<close>. The spec (4.2, 6)
  has it give an untyped pointer to the payload when the payload's identity token
  matches the expected one, respecting the runtime's own notion of type compatibility,
  and nothing on a mismatch. That notion is the parameter \<open>compatible\<close>, read
  \<open>compatible expected thrown\<close>; a null handle has no payload to match.
\<close>

definition detail_try_catch :: "(type_info \<Rightarrow> type_info \<Rightarrow> bool) \<Rightarrow> abi_try_catch" where
  "detail_try_catch compatible ex expected =
     (case ex of None \<Rightarrow> None
      | Some obj \<Rightarrow> if compatible expected (obj_type obj) then Some (obj_addr obj) else None)"

text \<open>
  The constructor from \<^verbatim>\<open>detail::current_exception_tag\<close> (line 146) and
  \<^verbatim>\<open>stdx::current_exception\<close> (lines 149 to 151); \<^verbatim>\<open>stdx::rethrow_exception\<close> is
  \<^verbatim>\<open>std::rethrow_exception\<close> (line 153).
\<close>

definition exception_ptr_from_tag :: "runtime \<Rightarrow> exception_ptr" where
  "exception_ptr_from_tag rt = std_current_exception rt"

definition current_exception :: "runtime \<Rightarrow> exception_ptr" where
  "current_exception rt = exception_ptr_from_tag rt"

definition rethrow_exception :: "exception_ptr \<Rightarrow> 'a outcome" where
  "rethrow_exception ex = std_rethrow_exception ex"

text \<open>
  The address a handler would be called with: what \<^verbatim>\<open>*caught\<close> gives when
  \<^verbatim>\<open>try_catch\<close> of the handler's argument type yields a view that tests true. A handler
  matches a handle when there is such an address.
\<close>

definition matched_addr :: "abi_try_catch \<Rightarrow> exception_ptr \<Rightarrow> 's handler \<Rightarrow> addr option" where
  "matched_addr dtc ex h =
     (case ArgumentOf h of Inl e \<Rightarrow> None
      | Inr arg \<Rightarrow> (case try_catch dtc ex arg of Inl e \<Rightarrow> None
                    | Inr caught \<Rightarrow> caught_value caught))"

definition matches :: "abi_try_catch \<Rightarrow> exception_ptr \<Rightarrow> 's handler \<Rightarrow> bool" where
  "matches dtc ex h = (matched_addr dtc ex h \<noteq> None)"

text \<open>One return type converts to another without loss: it is the same, or \<^verbatim>\<open>bool\<close> beside \<^verbatim>\<open>int\<close>.\<close>

definition widens :: "rtype \<Rightarrow> rtype \<Rightarrow> bool" where
  "widens t c = (t = c \<or> (t = RBool \<and> c = RInt))"

section \<open>The concrete scenarios of the specification\<close>

text \<open>
  A handler that takes its argument by the given parameter type, appends its tag to a
  log (the state of the program) and returns the given value. The log shows which
  handlers ran, and how often.
\<close>

definition logging_handler :: "ctype \<Rightarrow> rtype \<Rightarrow> val \<Rightarrow> nat \<Rightarrow> (nat list) handler" where
  "logging_handler T r v tag =
     \<lparr>h_ret = r, h_params = [T], h_ellipsis = False,
      h_body = (\<lambda>a log. (Returns v, log @ [tag]))\<rparr>"

text \<open>\<^verbatim>\<open>[h(DiskFull) -> 1, h(NetworkTimeout) -> 2, h(OutOfMemory) -> 3]\<close>, tagged 0, 1, 2.\<close>

definition scenario_handlers :: "(nat list) handler list" where
  "scenario_handlers =
     [logging_handler (LRef (Named Unqualified ''DiskFull'')) RInt (VInt 1) 0,
      logging_handler (LRef (Named Unqualified ''NetworkTimeout'')) RInt (VInt 2) 1,
      logging_handler (LRef (Named Unqualified ''OutOfMemory'')) RInt (VInt 3) 2]"

text \<open>A handle to a raised object of the named class, living at address 4096.\<close>

definition holding :: "string \<Rightarrow> exception_ptr" where
  "holding name = Some \<lparr>obj_type = Named Unqualified name, obj_addr = 4096\<rparr>"

text \<open>The runtime whose type compatibility is identity of the tokens.\<close>

definition exact_try_catch :: abi_try_catch where
  "exact_try_catch = detail_try_catch (\<lambda>expected thrown. expected = thrown)"

text \<open>Two handlers that return nothing, tagged 0 and 1.\<close>

definition void_handlers :: "(nat list) handler list" where
  "void_handlers =
     [logging_handler (LRef (Named Unqualified ''DiskFull'')) RVoid VVoid 0,
      logging_handler (LRef (Named Unqualified ''NetworkTimeout'')) RVoid VVoid 1]"

text \<open>A handler that returns nothing before one that returns an \<^verbatim>\<open>int\<close>.\<close>

definition mixed_handlers :: "(nat list) handler list" where
  "mixed_handlers =
     [logging_handler (LRef (Named Unqualified ''NetworkTimeout'')) RVoid VVoid 0,
      logging_handler (LRef (Named Unqualified ''DiskFull'')) RInt (VInt 1) 1]"

text \<open>
  The handler \<^verbatim>\<open>h(NetworkTimeout) -> 2\<close> with its parameter declared by value and by
  lvalue reference, and a handler declared to accept anything: \<^verbatim>\<open>[](...) {}\<close>.
\<close>

definition by_value_handler :: "(nat list) handler" where
  "by_value_handler = logging_handler (Named Unqualified ''NetworkTimeout'') RInt (VInt 2) 1"

definition by_reference_handler :: "(nat list) handler" where
  "by_reference_handler = logging_handler (LRef (Named Unqualified ''NetworkTimeout'')) RInt (VInt 2) 1"

definition variadic_handler :: "(nat list) handler" where
  "variadic_handler =
     \<lparr>h_ret = RVoid, h_params = [], h_ellipsis = True,
      h_body = (\<lambda>a log. (Returns VVoid, log @ [7]))\<rparr>"

text \<open>A runtime in which no error is being handled.\<close>

definition no_active_error :: runtime where
  "no_active_error = \<lparr>handled = []\<rparr>"

section \<open>Properties of the type computations\<close>

lemma common_type2_cases:
  "common_type2 a b = (if a = RVoid \<and> b = RVoid then Some RVoid
      else if a = RVoid \<or> b = RVoid then None
      else if a = RBool \<and> b = RBool then Some RBool else Some RInt)"
  by (cases a; cases b) simp_all

lemma common_type_closed:
  "common_type ts =
     (if ts = [] then None
      else if \<forall>t\<in>set ts. t = RVoid then Some RVoid
      else if RVoid \<in> set ts then None
      else if \<forall>t\<in>set ts. t = RBool then Some RBool
      else Some RInt)"
proof (induction ts rule: common_type.induct)
  case 1
  then show ?case by simp
next
  case (2 t)
  then show ?case by (cases t) simp_all
next
  case (3 t1 t2 ts)
  show ?case
  proof (cases "common_type2 t1 t2")
    case None
    then show ?thesis by (auto simp: common_type2_cases split: if_splits)
  next
    case (Some c)
    with 3 have "common_type (t1 # t2 # ts) = (if \<forall>t\<in>set (c # ts). t = RVoid then Some RVoid
      else if RVoid \<in> set (c # ts) then None
      else if \<forall>t\<in>set (c # ts). t = RBool then Some RBool
      else Some RInt)" by simp
    with Some show ?thesis
      by (cases t1; cases t2) (auto split: if_splits)
  qed
qed

lemma common_type_widens:
  "common_type ts = Some c \<Longrightarrow> t \<in> set ts \<Longrightarrow> widens t c"
  by (cases t) (auto simp: common_type_closed widens_def split: if_splits)

lemma common_type_tail:
  "common_type (t # ts) = Some c \<Longrightarrow> ts \<noteq> [] \<Longrightarrow> \<exists>c'. common_type ts = Some c' \<and> widens c' c"
  by (cases ts) (auto simp: common_type_closed widens_def split: if_splits)

lemma common_type_void:
  "common_type ts = Some c \<Longrightarrow> RVoid \<in> set ts \<Longrightarrow> c = RVoid \<and> (\<forall>t\<in>set ts. t = RVoid)"
  by (auto simp: common_type_closed split: if_splits)

lemma ReturnOfs_Inr: "ReturnOfs hs = Inr rs \<Longrightarrow> rs = map h_ret hs"
  by (induction hs arbitrary: rs) (auto simp: ReturnOf_def split: sum.splits)

lemma ReturnOfs_tail: "ReturnOfs (h # rest) = Inr rs \<Longrightarrow> ReturnOfs rest = Inr (map h_ret rest)"
  by (auto simp: ReturnOf_def split: sum.splits dest: ReturnOfs_Inr)

lemma CommonType_Inr:
  "CommonType hs = Inr ct \<Longrightarrow> common_type (map h_ret hs) = Some ct"
  by (auto simp: CommonType_def split: sum.splits option.splits dest: ReturnOfs_Inr)

lemma CommonType_tail:
  assumes "CommonType (h # rest) = Inr ct" and "rest \<noteq> []"
  shows "\<exists>ct'. CommonType rest = Inr ct' \<and> widens ct' ct"
proof -
  from assms(1) obtain rs where rs: "ReturnOfs (h # rest) = Inr rs"
    by (auto simp: CommonType_def split: sum.splits)
  then have tl: "ReturnOfs rest = Inr (map h_ret rest)" by (rule ReturnOfs_tail)
  from assms(1) have "common_type (h_ret h # map h_ret rest) = Some ct"
    using CommonType_Inr by fastforce
  with assms(2) obtain c' where "common_type (map h_ret rest) = Some c'" "widens c' ct"
    using common_type_tail [of "h_ret h" "map h_ret rest" ct] by auto
  with tl show ?thesis by (simp add: CommonType_def)
qed

lemma handle_instantiation_Cons:
  assumes "handle_instantiation (h # rest) = Inr ty"
  shows "\<exists>ct arg ty'. CommonType (h # rest) = Inr ct \<and> ty = handle_result_type ct
      \<and> ArgumentOf h = Inr arg \<and> arg \<noteq> catch_all_tag \<and> try_catch_static_assert arg
      \<and> \<not> is_rvalue_reference_v arg
      \<and> handle_instantiation rest = Inr ty' \<and> convertible ty' ty"
  using assms by (auto split: sum.splits if_splits)

lemma handle_instantiation_type:
  assumes "handle_instantiation hs = Inr ty" and "hs \<noteq> []"
  shows "\<exists>ct. common_type (map h_ret hs) = Some ct \<and> ty = handle_result_type ct"
proof -
  from assms(2) obtain h rest where hs: "hs = h # rest" by (cases hs) auto
  with assms(1) obtain ct where "CommonType hs = Inr ct" "ty = handle_result_type ct"
    using handle_instantiation_Cons [of h rest ty] by auto
  then show ?thesis using CommonType_Inr by blast
qed

lemma convert_widens:
  "widens r c' \<Longrightarrow> widens c' c \<Longrightarrow> convert c (convert c' (convert r v)) = convert c (convert r v)"
  by (cases r; cases c'; cases c; cases v) (simp_all add: widens_def)

lemma lift_matched:
  "widens r c' \<Longrightarrow> widens c' c \<Longrightarrow> 
   convert_result (handle_result_type c) (matched_result (handle_result_type c') (convert r v))
     = matched_result (handle_result_type c) (convert r v)"
  by (cases r; cases c'; cases c; cases v) (simp_all add: widens_def handle_result_type_def)

lemma lift_empty:
  "widens c' c \<Longrightarrow> 
   convert_result (handle_result_type c) (empty_result (handle_result_type c')) = empty_result (handle_result_type c)"
  by (cases c'; cases c) (simp_all add: widens_def handle_result_type_def)

lemma matched_addr_head:
  "matched_addr dtc ex h = Some a \<Longrightarrow>
     \<exists>arg caught. ArgumentOf h = Inr arg \<and> try_catch dtc ex arg = Inr caught \<and> caught_value caught = Some a"
  by (auto simp: matched_addr_def split: sum.splits)

lemma not_matches_head:
  "\<not> matches dtc ex h \<Longrightarrow> ArgumentOf h = Inr arg \<Longrightarrow> try_catch dtc ex arg = Inr caught \<Longrightarrow> caught_value caught = None"
  by (auto simp: matches_def matched_addr_def split: sum.splits)

lemma try_catch_Inr:
  "try_catch_static_assert arg \<Longrightarrow> \<exists>caught. try_catch dtc ex arg = Inr caught"
  by (auto simp: try_catch_def split: option.splits)

lemma handle_step:
  assumes "handle_instantiation (h # rest) = Inr ty" and "\<not> matches dtc ex h" and "rest \<noteq> []"
  shows "handle dtc ex (h # rest) s =
     (case handle dtc ex rest s of Inl e \<Rightarrow> Inl e | Inr (r, s') \<Rightarrow> Inr (map_outcome (convert_result ty) r, s'))"
proof -
  from handle_instantiation_Cons [OF assms(1)] obtain arg where
    arg: "ArgumentOf h = Inr arg" "try_catch_static_assert arg" by blast
  then obtain caught where c: "try_catch dtc ex arg = Inr caught" using try_catch_Inr by blast
  with arg assms(2) have "caught_value caught = None" by (simp add: not_matches_head)
  with arg c assms(1,3) show ?thesis by simp
qed

lemma handle_first_match_aux:
  assumes "handle_instantiation hs = Inr ty"
      and "k < length hs"
      and "matched_addr dtc ex (hs ! k) = Some a"
      and "\<forall>j<k. \<not> matches dtc ex (hs ! j)"
  shows "handle dtc ex hs s =
           Inr (case invoke (hs ! k) a s of (r, s') \<Rightarrow> (map_outcome (matched_result ty) r, s'))"
  using assms
proof (induction hs arbitrary: k ty)
  case Nil
  then show ?case by simp
next
  case (Cons h rest)
  show ?case
  proof (cases k)
    case 0
    with Cons.prems(3) obtain arg caught where
      "ArgumentOf h = Inr arg" "try_catch dtc ex arg = Inr caught" "caught_value caught = Some a"
      using matched_addr_head by fastforce
    with Cons.prems(1) 0 show ?thesis by (simp split: prod.splits)
  next
    case (Suc k')
    from Cons.prems(2) Suc have k': "k' < length rest" by simp
    then have ne: "rest \<noteq> []" by auto
    from Cons.prems(4) Suc have nm: "\<not> matches dtc ex h" by auto
    from handle_instantiation_Cons [OF Cons.prems(1)] obtain ct ty' where
      ct: "CommonType (h # rest) = Inr ct" "ty = handle_result_type ct"
      and ty': "handle_instantiation rest = Inr ty'" by blast
    from CommonType_tail [OF ct(1) ne] obtain ct' where
      ct': "CommonType rest = Inr ct'" "widens ct' ct" by blast
    from handle_instantiation_type [OF ty' ne] ct'(1) have ty'_eq: "ty' = handle_result_type ct'"
      by (auto dest: CommonType_Inr)
    have w: "widens (h_ret (rest ! k')) ct'"
      using CommonType_Inr [OF ct'(1)] k' by (auto intro: common_type_widens)
    have "\<forall>j<k'. \<not> matches dtc ex (rest ! j)" using Cons.prems(4) Suc by auto
    with Cons.IH [OF ty' k'] Cons.prems(3) Suc
    have IH: "handle dtc ex rest s =
           Inr (case invoke (rest ! k') a s of (r, s') \<Rightarrow> (map_outcome (matched_result ty') r, s'))"
      by simp
    have lift: "map_outcome (convert_result ty) (map_outcome (matched_result ty') (map_outcome (convert (h_ret (rest ! k'))) r))
        = map_outcome (matched_result ty) (map_outcome (convert (h_ret (rest ! k'))) r)" for r
      using lift_matched [OF w ct'(2)] by (cases r) (simp_all add: ct(2) ty'_eq)
    show ?thesis
      using handle_step [OF Cons.prems(1) nm ne] IH lift Suc
      by (simp add: invoke_def split: prod.splits)
  qed
qed

lemma handle_no_match_aux:
  assumes "handle_instantiation hs = Inr ty"
      and "\<forall>h\<in>set hs. \<not> matches dtc ex h"
  shows "handle dtc ex hs s = Inr (Returns (empty_result ty), s)"
  using assms
proof (induction hs arbitrary: ty)
  case Nil
  then show ?case by auto
next
  case (Cons h rest)
  from handle_instantiation_Cons [OF Cons.prems(1)] obtain ct ty' arg where
      ct: "CommonType (h # rest) = Inr ct" "ty = handle_result_type ct"
      and ty': "handle_instantiation rest = Inr ty'" 
      and arg: "ArgumentOf h = Inr arg" "try_catch_static_assert arg" by blast
  from Cons.prems(2) have nm: "\<not> matches dtc ex h" by simp
  show ?case
  proof (cases "rest = []")
    case True
    from arg obtain caught where c: "try_catch dtc ex arg = Inr caught" using try_catch_Inr by blast
    with arg nm have "caught_value caught = None" by (simp add: not_matches_head)
    with True c arg Cons.prems(1) show ?thesis by simp
  next
    case False
    from CommonType_tail [OF ct(1) False] obtain ct' where
      ct': "CommonType rest = Inr ct'" "widens ct' ct" by blast
    from handle_instantiation_type [OF ty' False] ct'(1) have ty'_eq: "ty' = handle_result_type ct'"
      by (auto dest: CommonType_Inr)
    from Cons.IH [OF ty'] Cons.prems(2)
    have "handle dtc ex rest s = Inr (Returns (empty_result ty'), s)" by simp
    with handle_step [OF Cons.prems(1) nm False] lift_empty [OF ct'(2)]
    show ?thesis by (simp add: ct(2) ty'_eq)
  qed
qed

lemmas scenario_defs = scenario_handlers_def logging_handler_def holding_def exact_try_catch_def
  detail_try_catch_def CommonType_def ReturnOf_def ArgumentOf_def catch_all_tag_def
  try_catch_static_assert_def is_reference_v_def handle_result_type_def matched_addr_def
  matches_def try_catch_def typeid_def static_cast_target_def empty_target_def nullptr_def invoke_def

section \<open>Properties of the escalation path\<close>

lemma hot_instantiation_Cons:
  assumes "handle_or_terminate_instantiation (h # rest) = Inr ct"
  shows "\<exists>arg ct'. CommonType (h # rest) = Inr ct
      \<and> ArgumentOf h = Inr arg \<and> arg \<noteq> catch_all_tag \<and> try_catch_static_assert arg
      \<and> \<not> is_rvalue_reference_v arg \<and> return_statement (h_ret h) ct = None
      \<and> handle_or_terminate_instantiation rest = Inr ct' \<and> return_statement ct' ct = None"
  using assms by (auto split: sum.splits if_splits option.splits)

lemma return_statement_void: "return_statement RVoid ct = None \<Longrightarrow> ct = RVoid"
  by (cases ct) simp_all

lemma hot_instantiation_void:
  "handle_or_terminate_instantiation hs = Inr ct \<Longrightarrow> ct = RVoid"
proof (induction hs arbitrary: ct)
  case Nil
  then show ?case by simp
next
  case (Cons h rest)
  from hot_instantiation_Cons [OF Cons.prems] obtain ct' where
    "handle_or_terminate_instantiation rest = Inr ct'" "return_statement ct' ct = None" by blast
  with Cons.IH show ?case using return_statement_void by blast
qed

lemma hot_instantiation_handle:
  "handle_or_terminate_instantiation hs = Inr ct \<Longrightarrow> handle_instantiation hs = Inr bool_result"
proof (induction hs arbitrary: ct)
  case Nil
  then show ?case by simp
next
  case (Cons h rest)
  from hot_instantiation_Cons [OF Cons.prems] obtain arg ct' where
    f: "CommonType (h # rest) = Inr ct" "ArgumentOf h = Inr arg"  "arg \<noteq> catch_all_tag"
      "try_catch_static_assert arg" "\<not> is_rvalue_reference_v arg"
      "handle_or_terminate_instantiation rest = Inr ct'" by blast
  from hot_instantiation_void [OF Cons.prems] have "ct = RVoid" .
  with f Cons.IH [OF f(6)] show ?case by (simp add: handle_result_type_def)
qed

lemma terminate_with_active_map:
  "map_outcome f (terminate_with_active ex rt) = terminate_with_active ex rt"
  by (cases ex) (simp_all add: terminate_with_active_def catch_all_def std_rethrow_exception_def std_terminate_def)

lemma hot_step:
  assumes "handle_or_terminate_instantiation (h # rest) = Inr ct" and "\<not> matches dtc ex h" 
  shows "handle_or_terminate dtc ex (h # rest) rt s =
     (case handle_or_terminate dtc ex rest rt s of Inl e \<Rightarrow> Inl e | Inr (r, s') \<Rightarrow> Inr (map_outcome (convert ct) r, s'))"
proof -
  from hot_instantiation_Cons [OF assms(1)] obtain arg where
    arg: "ArgumentOf h = Inr arg" "try_catch_static_assert arg" by blast
  then obtain caught where c: "try_catch dtc ex arg = Inr caught" using try_catch_Inr by blast
  with arg assms(2) have "caught_value caught = None" by (simp add: not_matches_head)
  with arg c assms(1) show ?thesis by simp
qed

lemma convert_void_fun: "convert RVoid = (\<lambda>v. VVoid)"
  by (rule ext) simp

lemma hot_first_match_aux:
  assumes "handle_or_terminate_instantiation hs = Inr ct"
      and "k < length hs"
      and "matched_addr dtc ex (hs ! k) = Some a"
      and "\<forall>j<k. \<not> matches dtc ex (hs ! j)"
  shows "handle_or_terminate dtc ex hs rt s =
           Inr (case invoke (hs ! k) a s of (r, s') \<Rightarrow> (map_outcome (convert ct) r, s'))"
  using assms
proof (induction hs arbitrary: k ct)
  case Nil
  then show ?case by simp
next
  case (Cons h rest)
  show ?case
  proof (cases k)
    case 0
    with Cons.prems(3) obtain arg caught where
      "ArgumentOf h = Inr arg" "try_catch dtc ex arg = Inr caught" "caught_value caught = Some a"
      using matched_addr_head by fastforce
    with Cons.prems(1) 0 show ?thesis by (simp split: prod.splits)
  next
    case (Suc k')
    from Cons.prems(2) Suc have k': "k' < length rest" by simp
    from Cons.prems(4) Suc have nm: "\<not> matches dtc ex h" by auto
    from hot_instantiation_Cons [OF Cons.prems(1)] obtain ct' where
      ct': "handle_or_terminate_instantiation rest = Inr ct'" by blast
    have v: "ct = RVoid" "ct' = RVoid"
      using hot_instantiation_void Cons.prems(1) ct' by blast+
    have "\<forall>j<k'. \<not> matches dtc ex (rest ! j)" using Cons.prems(4) Suc by auto
    with Cons.IH [OF ct' k'] Cons.prems(3) Suc
    have IH: "handle_or_terminate dtc ex rest rt s =
           Inr (case invoke (rest ! k') a s of (r, s') \<Rightarrow> (map_outcome (convert ct') r, s'))"
      by simp
    show ?thesis
      using hot_step [OF Cons.prems(1) nm] IH Suc v
      by (simp add: convert_void_fun outcome.map_comp comp_def split: prod.splits)
  qed
qed

lemma hot_no_match_aux:
  assumes "handle_or_terminate_instantiation hs = Inr ct"
      and "\<forall>h\<in>set hs. \<not> matches dtc ex h"
  shows "handle_or_terminate dtc ex hs rt s = Inr (terminate_with_active ex rt, s)"
  using assms
proof (induction hs arbitrary: ct)
  case Nil
  then show ?case by simp
next
  case (Cons h rest)
  from hot_instantiation_Cons [OF Cons.prems(1)] obtain ct' where
      ct': "handle_or_terminate_instantiation rest = Inr ct'" by blast
  from Cons.prems(2) have nm: "\<not> matches dtc ex h" by simp
  from Cons.IH [OF ct'] Cons.prems(2)
  have "handle_or_terminate dtc ex rest rt s = Inr (terminate_with_active ex rt, s)" by simp
  with hot_step [OF Cons.prems(1) nm] show ?case
    by (simp add: terminate_with_active_map)
qed

text \<open>
  No chain of handlers that return values gets through: only chains whose common return
  type is \<^verbatim>\<open>void\<close> are instantiated by \<^verbatim>\<open>handle_or_terminate\<close>.
\<close>

lemma handle_or_terminate_rejects_values:
  assumes "CommonType hs = Inr ct" and "ct \<noteq> RVoid"
  shows "\<exists>e. handle_or_terminate dtc ex hs rt s = Inl e"
proof -
  from assms(1) have "hs \<noteq> []" by (auto simp: CommonType_def)
  then obtain h rest where hs: "hs = h # rest" by (cases hs) auto
  show ?thesis
  proof (cases "handle_or_terminate_instantiation hs")
    case (Inl e)
    with hs show ?thesis by simp
  next
    case (Inr ct')
    with hs hot_instantiation_Cons [of h rest ct'] have "CommonType hs = Inr ct'" by blast
    moreover from Inr have "ct' = RVoid" by (rule hot_instantiation_void)
    ultimately show ?thesis using assms by simp
  qed
qed

lemma terminate_with_active_Some: "terminate_with_active (Some obj) rt = Terminates (Some obj)"
  by (simp add: terminate_with_active_def catch_all_def std_rethrow_exception_def std_terminate_def
      std_current_exception_def enter_catch_def)

section \<open>Chains that are not instantiated\<close>

lemma handle_instantiation_good:
  "handle_instantiation hs = Inr ty \<Longrightarrow> h \<in> set hs \<Longrightarrow>
     \<exists>arg. ArgumentOf h = Inr arg \<and> arg \<noteq> catch_all_tag \<and> try_catch_static_assert arg
        \<and> \<not> is_rvalue_reference_v arg"
proof (induction hs arbitrary: ty)
  case Nil
  then show ?case by simp
next
  case (Cons h' rest)
  from handle_instantiation_Cons [OF Cons.prems(1)] Cons.IH Cons.prems(2)
  show ?case by auto
qed

lemma hot_instantiation_good:
  "handle_or_terminate_instantiation hs = Inr ct \<Longrightarrow> h \<in> set hs \<Longrightarrow>
     \<exists>arg. ArgumentOf h = Inr arg \<and> arg \<noteq> catch_all_tag \<and> try_catch_static_assert arg
        \<and> \<not> is_rvalue_reference_v arg"
proof (induction hs arbitrary: ct)
  case Nil
  then show ?case by simp
next
  case (Cons h' rest)
  from hot_instantiation_Cons [OF Cons.prems(1)] Cons.IH Cons.prems(2)
  show ?case by auto
qed

lemma handle_rejects:
  assumes "h \<in> set hs"
      and "\<not> (\<exists>arg. ArgumentOf h = Inr arg \<and> arg \<noteq> catch_all_tag \<and> try_catch_static_assert arg
        \<and> \<not> is_rvalue_reference_v arg)"
  shows "\<exists>e. handle dtc ex hs s = Inl e"
proof -
  from assms(1) obtain h' rest where hs: "hs = h' # rest" by (cases hs) auto
  show ?thesis
  proof (cases "handle_instantiation hs")
    case (Inl e)
    with hs show ?thesis by simp
  next
    case (Inr ty)
    with assms handle_instantiation_good show ?thesis by blast
  qed
qed

lemma hot_rejects:
  assumes "h \<in> set hs"
      and "\<not> (\<exists>arg. ArgumentOf h = Inr arg \<and> arg \<noteq> catch_all_tag \<and> try_catch_static_assert arg
        \<and> \<not> is_rvalue_reference_v arg)"
  shows "\<exists>e. handle_or_terminate dtc ex hs rt s = Inl e"
proof -
  from assms(1) obtain h' rest where hs: "hs = h' # rest" by (cases hs) auto
  show ?thesis
  proof (cases "handle_or_terminate_instantiation hs")
    case (Inl e)
    with hs show ?thesis by simp
  next
    case (Inr ty)
    with assms hot_instantiation_good show ?thesis by blast
  qed
qed

lemma CommonType_single: "ArgumentOf h = Inr arg \<Longrightarrow> CommonType [h] = Inr (h_ret h)"
  by (cases "h_ret h") (simp_all add: CommonType_def ReturnOf_def)

lemma handle_instantiation_single:
  assumes "ArgumentOf h = Inr T" and "is_lvalue_reference_v T \<or> is_pointer_v T"
  shows "handle_instantiation [h] = Inr (handle_result_type (h_ret h))"
proof -
  from assms(2) have "T \<noteq> catch_all_tag" "try_catch_static_assert T" "\<not> is_rvalue_reference_v T"
    by (cases T; simp add: catch_all_tag_def try_catch_static_assert_def is_reference_v_def)+
  with assms(1) CommonType_single [OF assms(1)] show ?thesis
    by (cases "h_ret h") (simp_all add: handle_result_type_def)
qed

section \<open>Dispatch: the first matching handler\<close>

text \<open>
  Claim C1. For a chain of handlers that instantiates, a handle and a position \<open>k\<close> such
  that the handler at \<open>k\<close> matches the handle and no handler before it does, \<^verbatim>\<open>handle\<close>
  does what one call of that handler does, on the state it was entered with, and wraps
  the value as a match: the result and the final state are those of invoking handler
  \<open>k\<close> once, whatever the bodies of the handlers are, so no other handler is invoked.
  In the scenario of a \<^verbatim>\<open>NetworkTimeout\<close> payload and the handlers
  \<^verbatim>\<open>[h(DiskFull) -> 1, h(NetworkTimeout) -> 2, h(OutOfMemory) -> 3]\<close> the result is the
  wrapped value 2 and the log holds the tag of the second handler alone.
\<close>

theorem handle_first_match:
  assumes "handle_instantiation hs = Inr ty"
      and "k < length hs"
      and "matched_addr dtc ex (hs ! k) = Some a"
      and "\<forall>j<k. \<not> matches dtc ex (hs ! j)"
  shows "handle dtc ex hs s =
           Inr (case invoke (hs ! k) a s of (r, s') \<Rightarrow> (map_outcome (matched_result ty) r, s'))"
  using assms by (rule handle_first_match_aux)

theorem handle_first_match_witness:
  "handle_instantiation scenario_handlers = Inr (optional_result RInt)
   \<and> (1::nat) < length scenario_handlers
   \<and> matched_addr exact_try_catch (holding ''NetworkTimeout'') (scenario_handlers ! 1) = Some 4096
   \<and> \<not> matches exact_try_catch (holding ''NetworkTimeout'') (scenario_handlers ! 0)
   \<and> handle exact_try_catch (holding ''NetworkTimeout'') scenario_handlers []
       = Inr (Returns (result_optional (Some (VInt 2))), [1])"
proof -
  have 1: "handle_instantiation scenario_handlers = Inr (optional_result RInt)"
    by (simp add: scenario_defs)
  have 2: "(1::nat) < length scenario_handlers"
    by (simp add: scenario_defs)
  have 3: "matched_addr exact_try_catch (holding ''NetworkTimeout'') (scenario_handlers ! 1) = Some 4096"
    by (simp add: scenario_defs)
  have 4: "\<not> matches exact_try_catch (holding ''NetworkTimeout'') (scenario_handlers ! 0)"
    by (simp add: scenario_defs)
  then have 5: "\<forall>j<1. \<not> matches exact_try_catch (holding ''NetworkTimeout'') (scenario_handlers ! j)"
    by simp
  have 6: "invoke (scenario_handlers ! 1) 4096 [] = (Returns (VInt 2), [1])"
    by (simp add: scenario_defs)
  from handle_first_match [OF 1 2 3 5, of "[]"] 6 1 2 3 4 show ?thesis by simp
qed

section \<open>Dispatch: no matching handler\<close>

text \<open>
  Claim C2. For a chain of handlers that instantiates and a handle that none of the
  handlers matches, \<^verbatim>\<open>handle\<close> returns the negative result, \<^verbatim>\<open>false\<close> for a chain of
  handlers returning nothing and an empty optional for a chain returning values, and
  leaves the state as it was, so no handler ran. Without handlers the result is
  \<^verbatim>\<open>false\<close> for every handle and every way \<open>dtc'\<close> of inspecting it: the handle is not
  looked at.
\<close>

theorem handle_no_match:
  assumes "handle_instantiation hs = Inr ty"
      and "\<forall>h\<in>set hs. \<not> matches dtc ex h"
  shows "handle dtc ex hs s =
           Inr (Returns (case ty of bool_result \<Rightarrow> result_bool False
                         | optional_result c \<Rightarrow> result_optional None), s)
         \<and> handle dtc' ex' [] s = Inr (Returns (result_bool False), s)"
  using handle_no_match_aux [OF assms, of s] by (cases ty) simp_all

theorem handle_no_match_witness:
  "handle_instantiation scenario_handlers = Inr (optional_result RInt)
   \<and> \<not> matches exact_try_catch (holding ''InvalidInput'') (scenario_handlers ! 0)
   \<and> \<not> matches exact_try_catch (holding ''InvalidInput'') (scenario_handlers ! 1)
   \<and> \<not> matches exact_try_catch (holding ''InvalidInput'') (scenario_handlers ! 2)
   \<and> handle exact_try_catch (holding ''InvalidInput'') scenario_handlers []
        = Inr (Returns (result_optional None), [])
   \<and> handle exact_try_catch (holding ''InvalidInput'') ([] :: (nat list) handler list) []
        = Inr (Returns (result_bool False), [])"
proof -
  have 1: "handle_instantiation scenario_handlers = Inr (optional_result RInt)"
    by (simp add: scenario_defs)
  have 2: "\<not> matches exact_try_catch (holding ''InvalidInput'') (scenario_handlers ! 0)"
    "\<not> matches exact_try_catch (holding ''InvalidInput'') (scenario_handlers ! 1)"
    "\<not> matches exact_try_catch (holding ''InvalidInput'') (scenario_handlers ! 2)"
    by (simp_all add: scenario_defs)
  have 3: "\<forall>h\<in>set scenario_handlers. \<not> matches exact_try_catch (holding ''InvalidInput'') h"
    by (simp add: scenario_defs)
  from handle_no_match [OF 1 3, of "[]" exact_try_catch "holding ''InvalidInput''"] 1 2
  show ?thesis by simp
qed

section \<open>The result type of a chain\<close>

text \<open>
  Claim C3 as stated fails: a handler returning nothing that matches, followed by a
  handler returning \<^verbatim>\<open>int\<close>, does not make \<^verbatim>\<open>handle\<close> return \<^verbatim>\<open>true\<close>. \<^verbatim>\<open>void\<close> and \<^verbatim>\<open>int\<close>
  have no \<^verbatim>\<open>std::common_type\<close>, so the default template argument \<open>CommonType\<close> cannot be
  formed and the call is not instantiated.
\<close>

theorem handle_mixed_void_counterexample:
  "h_ret (mixed_handlers ! 0) = RVoid
   \<and> matches exact_try_catch (holding ''NetworkTimeout'') (mixed_handlers ! 0)
   \<and> common_type (map h_ret mixed_handlers) = None
   \<and> handle_instantiation mixed_handlers = Inl no_common_type
   \<and> handle exact_try_catch (holding ''NetworkTimeout'') mixed_handlers [] = Inl no_common_type"
  by (simp add: mixed_handlers_def scenario_defs)

text \<open>
  Claim C3, amended. The result type of a chain that instantiates is fixed by the
  \<^verbatim>\<open>std::common_type\<close> of all the handlers' return types: \<^verbatim>\<open>bool\<close> when it is \<^verbatim>\<open>void\<close>,
  an optional of it otherwise. If some handler of such a chain returns nothing then all
  of them do, the result type is \<^verbatim>\<open>bool\<close>, and \<^verbatim>\<open>handle\<close> returns \<^verbatim>\<open>true\<close> when the first
  matching handler was invoked and returned.
\<close>

theorem handle_result_common_type:
  assumes "handle_instantiation hs = Inr ty" and "hs \<noteq> []"
  shows "\<exists>ct. common_type (map h_ret hs) = Some ct
           \<and> ty = (if ct = RVoid then bool_result else optional_result ct)
           \<and> ((\<exists>h\<in>set hs. h_ret h = RVoid) \<longrightarrow>
                 (\<forall>h\<in>set hs. h_ret h = RVoid) \<and> ty = bool_result
                 \<and> (\<forall>k a v s'. k < length hs \<and> matched_addr dtc ex (hs ! k) = Some a
                       \<and> (\<forall>j<k. \<not> matches dtc ex (hs ! j))
                       \<and> invoke (hs ! k) a s = (Returns v, s')
                     \<longrightarrow> handle dtc ex hs s = Inr (Returns (result_bool True), s')))"
proof -
  from handle_instantiation_type [OF assms] obtain ct where
    ct: "common_type (map h_ret hs) = Some ct" "ty = handle_result_type ct" by blast
  have void: "(\<forall>h\<in>set hs. h_ret h = RVoid) \<and> ty = bool_result"
    if "\<exists>h\<in>set hs. h_ret h = RVoid"
  proof -
    from that have "RVoid \<in> set (map h_ret hs)" by force
    from common_type_void [OF ct(1) this] ct(2) show ?thesis
      by (simp add: handle_result_type_def)
  qed
  have run: "handle dtc ex hs s = Inr (Returns (result_bool True), s')"
    if "ty = bool_result" "k < length hs" "matched_addr dtc ex (hs ! k) = Some a"
       "\<forall>j<k. \<not> matches dtc ex (hs ! j)" "invoke (hs ! k) a s = (Returns v, s')"
    for k a v s'
    using handle_first_match_aux [OF assms(1) that(2,3,4), of s] that(1,5) by simp
  have A: "ty = (if ct = RVoid then bool_result else optional_result ct)"
    using ct(2) by (simp add: handle_result_type_def)
  have B: "(\<exists>h\<in>set hs. h_ret h = RVoid) \<longrightarrow>
                 (\<forall>h\<in>set hs. h_ret h = RVoid) \<and> ty = bool_result
                 \<and> (\<forall>k a v s'. k < length hs \<and> matched_addr dtc ex (hs ! k) = Some a
                       \<and> (\<forall>j<k. \<not> matches dtc ex (hs ! j))
                       \<and> invoke (hs ! k) a s = (Returns v, s')
                     \<longrightarrow> handle dtc ex hs s = Inr (Returns (result_bool True), s'))"
    using void run by blast
  from ct(1) A B show ?thesis by blast
qed

theorem handle_result_common_type_witness:
  "handle_instantiation void_handlers = Inr bool_result
   \<and> void_handlers \<noteq> []
   \<and> common_type (map h_ret void_handlers) = Some RVoid
   \<and> h_ret (void_handlers ! 0) = RVoid
   \<and> handle exact_try_catch (holding ''NetworkTimeout'') void_handlers [] = Inr (Returns (result_bool True), [1])"
proof -
  have 1: "handle_instantiation void_handlers = Inr bool_result"
    by (simp add: void_handlers_def scenario_defs)
  have 2: "void_handlers \<noteq> []" by (simp add: void_handlers_def)
  have 3: "\<exists>h\<in>set void_handlers. h_ret h = RVoid" by (simp add: void_handlers_def scenario_defs)
  have 4: "(1::nat) < length void_handlers \<and> matched_addr exact_try_catch (holding ''NetworkTimeout'') (void_handlers ! 1) = Some 4096
     \<and> (\<forall>j<1. \<not> matches exact_try_catch (holding ''NetworkTimeout'') (void_handlers ! j))
     \<and> invoke (void_handlers ! 1) 4096 [] = (Returns VVoid, [1])"
    by (simp add: void_handlers_def scenario_defs)
  have 5: "common_type (map h_ret void_handlers) = Some RVoid" "h_ret (void_handlers ! 0) = RVoid"
    by (simp_all add: void_handlers_def scenario_defs)
  from handle_result_common_type [OF 1 2, of exact_try_catch "holding ''NetworkTimeout''" "[]"] 3 4
  have "handle exact_try_catch (holding ''NetworkTimeout'') void_handlers [] = Inr (Returns (result_bool True), [1])"
    by blast
  with 1 2 5 show ?thesis by simp
qed

section \<open>Escalation\<close>

text \<open>
  What the escalation path does for the chains it instantiates, which are the chains of
  handlers that return nothing, on a handle that holds an error: when no handler
  matches, where \<^verbatim>\<open>handle\<close> returns \<^verbatim>\<open>false\<close>, \<^verbatim>\<open>handle_or_terminate\<close> leaves the state
  untouched and ends in \<^verbatim>\<open>std::terminate\<close> with the held error re-raised and active; when
  the handler at \<open>k\<close> is the first that matches, both invoke that handler once, on the
  same address; the form without handlers always ends so.
\<close>

lemma handle_or_terminate_void_chain:
  assumes "handle_or_terminate_instantiation hs = Inr ct" and "ex = Some obj"
  shows "((\<forall>h\<in>set hs. \<not> matches dtc ex h) \<longrightarrow>
            handle dtc ex hs s = Inr (Returns (result_bool False), s)
            \<and> handle_or_terminate dtc ex hs rt s = Inr (Terminates (Some obj), s))
       \<and> (\<forall>k a. k < length hs \<and> matched_addr dtc ex (hs ! k) = Some a
                 \<and> (\<forall>j<k. \<not> matches dtc ex (hs ! j)) \<longrightarrow>
            handle dtc ex hs s =
              Inr (case invoke (hs ! k) a s of (r, s') \<Rightarrow> (map_outcome (\<lambda>v. result_bool True) r, s'))
            \<and> handle_or_terminate dtc ex hs rt s =
              Inr (case invoke (hs ! k) a s of (r, s') \<Rightarrow> (map_outcome (convert ct) r, s')))
       \<and> rethrow_exception ex = (Raises obj :: val outcome)
       \<and> terminate_with_active ex rt = (Terminates (Some obj) :: val outcome)
       \<and> handle_or_terminate dtc ex [] rt s = Inr (Terminates (Some obj), s)"
proof -
  have hi: "handle_instantiation hs = Inr bool_result"
    using assms(1) by (rule hot_instantiation_handle)
  have t: "terminate_with_active ex rt = (Terminates (Some obj) :: val outcome)"
    using assms(2) by (simp add: terminate_with_active_Some)
  have nomatch: "handle dtc ex hs s = Inr (Returns (result_bool False), s)
            \<and> handle_or_terminate dtc ex hs rt s = Inr (Terminates (Some obj), s)"
    if "\<forall>h\<in>set hs. \<not> matches dtc ex h"
    using handle_no_match_aux [OF hi that, of s] hot_no_match_aux [OF assms(1) that, where s = s and rt = rt] t
    by simp
  have match: "handle dtc ex hs s =
              Inr (case invoke (hs ! k) a s of (r, s') \<Rightarrow> (map_outcome (\<lambda>v. result_bool True) r, s'))
            \<and> handle_or_terminate dtc ex hs rt s =
              Inr (case invoke (hs ! k) a s of (r, s') \<Rightarrow> (map_outcome (convert ct) r, s'))"
    if "k < length hs" "matched_addr dtc ex (hs ! k) = Some a" "\<forall>j<k. \<not> matches dtc ex (hs ! j)"
    for k a
  proof -
    have "matched_result bool_result = (\<lambda>v. result_bool True)" by (rule ext) simp
    with handle_first_match_aux [OF hi that, of s] hot_first_match_aux [OF assms(1) that, where s = s and rt = rt]
    show ?thesis by simp
  qed
  have r: "rethrow_exception ex = (Raises obj :: val outcome)"
    using assms(2) by (simp add: rethrow_exception_def std_rethrow_exception_def)
  have z: "handle_or_terminate dtc ex [] rt s = Inr (Terminates (Some obj), s)"
    using t by simp
  from nomatch match r t z show ?thesis by blast
qed

text \<open>
  Claim C4 does not hold of the code. \<^verbatim>\<open>handle_or_terminate\<close> does not perform the
  matching of \<^verbatim>\<open>handle\<close> on the chains \<^verbatim>\<open>handle\<close> accepts: for the handlers
  \<^verbatim>\<open>[h(DiskFull) -> 1, h(NetworkTimeout) -> 2, h(OutOfMemory) -> 3]\<close> of the specification
  and an \<^verbatim>\<open>InvalidInput\<close> payload, \<^verbatim>\<open>handle\<close> returns the empty optional, and
  \<^verbatim>\<open>handle_or_terminate\<close>, which the claim has re-raise the error and terminate, is not
  instantiated: its last statement \<^verbatim>\<open>return handle_or_terminate();\<close> has an operand of type
  \<^verbatim>\<open>void\<close> in a function declared to return \<^verbatim>\<open>int\<close>. With a \<^verbatim>\<open>NetworkTimeout\<close> payload
  \<^verbatim>\<open>handle\<close> invokes the second handler, and \<^verbatim>\<open>handle_or_terminate\<close> is rejected likewise.
  Where the escalation path is instantiated it does what the claim says: for the two
  handlers that return nothing and for the form without handlers, on the unmatched
  payload, the state is untouched and the process terminates with the held error
  re-raised and active.
\<close>

theorem handle_or_terminate_scenario:
  "handle exact_try_catch (holding ''InvalidInput'') scenario_handlers []
     = Inr (Returns (result_optional None), [])
   \<and> handle_or_terminate exact_try_catch (holding ''InvalidInput'') scenario_handlers no_active_error []
     = Inl return_of_void_expression
   \<and> handle exact_try_catch (holding ''NetworkTimeout'') scenario_handlers []
     = Inr (Returns (result_optional (Some (VInt 2))), [1])
   \<and> handle_or_terminate exact_try_catch (holding ''NetworkTimeout'') scenario_handlers no_active_error []
     = Inl return_of_void_expression
   \<and> handle exact_try_catch (holding ''InvalidInput'') void_handlers []
     = Inr (Returns (result_bool False), [])
   \<and> handle_or_terminate exact_try_catch (holding ''InvalidInput'') void_handlers no_active_error []
     = Inr (Terminates (holding ''InvalidInput''), [])
   \<and> handle_or_terminate exact_try_catch (holding ''InvalidInput'') ([] :: (nat list) handler list) no_active_error []
     = Inr (Terminates (holding ''InvalidInput''), [])"
proof -
  have value_chain: "handle_or_terminate_instantiation scenario_handlers = Inl return_of_void_expression"
    by (simp add: scenario_defs)
  have void_chain: "handle_or_terminate_instantiation void_handlers = Inr RVoid"
    by (simp add: void_handlers_def scenario_defs)
  have active: "(terminate_with_active (holding ''InvalidInput'') no_active_error :: val outcome)
      = Terminates (holding ''InvalidInput'')"
    by (simp add: holding_def terminate_with_active_def catch_all_def std_rethrow_exception_def
        std_terminate_def std_current_exception_def enter_catch_def)
  have 1: "handle exact_try_catch (holding ''InvalidInput'') scenario_handlers []
     = Inr (Returns (result_optional None), [])"
    by (simp add: scenario_defs)
  have 2: "handle_or_terminate exact_try_catch (holding ''InvalidInput'') scenario_handlers no_active_error []
     = Inl return_of_void_expression"
    using value_chain by (simp add: scenario_handlers_def)
  have 3: "handle exact_try_catch (holding ''NetworkTimeout'') scenario_handlers []
     = Inr (Returns (result_optional (Some (VInt 2))), [1])"
    by (simp add: scenario_defs)
  have 4: "handle_or_terminate exact_try_catch (holding ''NetworkTimeout'') scenario_handlers no_active_error []
     = Inl return_of_void_expression"
    using value_chain by (simp add: scenario_handlers_def)
  have 5: "handle exact_try_catch (holding ''InvalidInput'') void_handlers []
     = Inr (Returns (result_bool False), [])"
    by (simp add: void_handlers_def scenario_defs)
  have 6: "handle_or_terminate exact_try_catch (holding ''InvalidInput'') void_handlers no_active_error []
     = Inr (Terminates (holding ''InvalidInput''), [])"
    using active by (simp add: void_handlers_def scenario_defs)
  have 7: "handle_or_terminate exact_try_catch (holding ''InvalidInput'') ([] :: (nat list) handler list) no_active_error []
     = Inr (Terminates (holding ''InvalidInput''), [])"
    using active by simp
  from 1 2 3 4 5 6 7 show ?thesis by simp
qed

text \<open>
  Claim C5 does not hold of the code. A chain whose common return type is not \<^verbatim>\<open>void\<close>
  ends, for its last handler, in \<^verbatim>\<open>return handle_or_terminate();\<close>, whose operand has
  type \<^verbatim>\<open>void\<close> in a function declared to return the common type: the call is not
  instantiated, so there is no match path that returns the value. For the handler
  \<^verbatim>\<open>h(NetworkTimeout) -> 2\<close> and a \<^verbatim>\<open>NetworkTimeout\<close> payload \<^verbatim>\<open>handle\<close> returns the wrapped
  2 and \<^verbatim>\<open>handle_or_terminate\<close> is rejected.
\<close>

theorem handle_or_terminate_value_chain:
  "handle exact_try_catch (holding ''NetworkTimeout'')
      [logging_handler (LRef (Named Unqualified ''NetworkTimeout'')) RInt (VInt 2) 1] []
     = Inr (Returns (result_optional (Some (VInt 2))), [1])
   \<and> CommonType [logging_handler (LRef (Named Unqualified ''NetworkTimeout'')) RInt (VInt 2) 1] = Inr RInt
   \<and> handle_or_terminate exact_try_catch (holding ''NetworkTimeout'')
      [logging_handler (LRef (Named Unqualified ''NetworkTimeout'')) RInt (VInt 2) 1]
      no_active_error []
     = Inl return_of_void_expression"
  by (simp add: scenario_defs)

section \<open>Handler shapes\<close>

text \<open>
  Claim C6 as stated fails: the handler \<^verbatim>\<open>h(NetworkTimeout) -> 2\<close> that declares its
  parameter by value has the deduced argument type \<^verbatim>\<open>NetworkTimeout\<close>, the type of the
  payload, and yet does not take part in matching: \<^verbatim>\<open>try_catch<NetworkTimeout>\<close> fails its
  \<^verbatim>\<open>static_assert\<close> (line 113) and the call is not instantiated. The same handler with the
  parameter declared by reference is invoked.
\<close>

theorem by_value_handler_counterexample:
  "h_params by_value_handler = [Named Unqualified ''NetworkTimeout'']
   \<and> ArgumentOf by_value_handler = Inr (Named Unqualified ''NetworkTimeout'')
   \<and> exception_ptr_type (holding ''NetworkTimeout'') = Some (typeid (Named Unqualified ''NetworkTimeout''))
   \<and> handle exact_try_catch (holding ''NetworkTimeout'') [by_value_handler] []
        = Inl static_assert_reference_or_pointer
   \<and> handle exact_try_catch (holding ''NetworkTimeout'') [by_reference_handler] []
        = Inr (Returns (result_optional (Some (VInt 2))), [1])"
  by (simp add: by_value_handler_def by_reference_handler_def exception_ptr_type_def detail_type_def scenario_defs)

text \<open>
  Claim C6, amended. For a handler that declares a single parameter, the deduced argument
  type is the declared parameter type itself, with nothing stripped. If that type is
  neither a reference nor a pointer, every chain that contains the handler is rejected
  when \<^verbatim>\<open>handle\<close> is instantiated (for the handler alone by the \<^verbatim>\<open>static_assert\<close> of
  \<^verbatim>\<open>try_catch\<close>). If it is an lvalue reference or a pointer, the handler alone is accepted
  and takes part in matching: it is invoked exactly when \<^verbatim>\<open>try_catch\<close> of its type gives
  a view that tests true.
\<close>

theorem handler_parameter_shapes:
  assumes "h_params h = [T]" and "\<not> h_ellipsis h"
  shows "ArgumentOf h = Inr T
       \<and> (\<not> is_reference_v T \<and> \<not> is_pointer_v T \<longrightarrow>
            (h \<in> set hs \<longrightarrow> (\<exists>e. handle dtc ex hs s = Inl e))
            \<and> (T \<noteq> catch_all_tag \<longrightarrow> handle dtc ex [h] s = Inl static_assert_reference_or_pointer))
       \<and> (is_lvalue_reference_v T \<or> is_pointer_v T \<longrightarrow>
            handle dtc ex [h] s =
              Inr (case matched_addr dtc ex h of
                     Some a \<Rightarrow> (case invoke h a s of (r, s') \<Rightarrow>
                                  (map_outcome (matched_result (handle_result_type (h_ret h))) r, s'))
                   | None \<Rightarrow> (Returns (empty_result (handle_result_type (h_ret h))), s)))"
proof -
  have arg: "ArgumentOf h = Inr T" using assms by (simp add: ArgumentOf_def)
  have rej: "\<exists>e. handle dtc ex hs s = Inl e"
    if "\<not> is_reference_v T" "\<not> is_pointer_v T" "h \<in> set hs"
    using handle_rejects [OF that(3)] arg that(1,2) by (simp add: try_catch_static_assert_def)
  have rej1: "handle dtc ex [h] s = Inl static_assert_reference_or_pointer"
    if "\<not> is_reference_v T" "\<not> is_pointer_v T" "T \<noteq> catch_all_tag"
    using arg that CommonType_single [OF arg] by (simp add: try_catch_static_assert_def)
  have acc: "handle dtc ex [h] s =
              Inr (case matched_addr dtc ex h of
                     Some a \<Rightarrow> (case invoke h a s of (r, s') \<Rightarrow>
                                  (map_outcome (matched_result (handle_result_type (h_ret h))) r, s'))
                   | None \<Rightarrow> (Returns (empty_result (handle_result_type (h_ret h))), s))"
    if "is_lvalue_reference_v T \<or> is_pointer_v T"
  proof (cases "matched_addr dtc ex h")
    case None
    then have "\<forall>h'\<in>set [h]. \<not> matches dtc ex h'" by (simp add: matches_def)
    from handle_no_match_aux [OF handle_instantiation_single [OF arg that] this, of s] None
    show ?thesis by simp
  next
    case (Some a)
    from handle_first_match_aux [OF handle_instantiation_single [OF arg that], of 0 dtc ex a s] Some
    show ?thesis by simp
  qed
  from arg rej rej1 acc show ?thesis by blast
qed

theorem handler_parameter_shapes_witness:
  "h_params by_value_handler = [Named Unqualified ''NetworkTimeout'']
   \<and> \<not> h_ellipsis by_value_handler
   \<and> \<not> is_reference_v (Named Unqualified ''NetworkTimeout'')
   \<and> \<not> is_pointer_v (Named Unqualified ''NetworkTimeout'')
   \<and> by_value_handler \<in> set (scenario_handlers @ [by_value_handler])
   \<and> (\<exists>e. handle exact_try_catch (holding ''DiskFull'') (scenario_handlers @ [by_value_handler]) [] = Inl e)"
proof -
  have 1: "h_params by_value_handler = [Named Unqualified ''NetworkTimeout'']"
    and 2: "\<not> h_ellipsis by_value_handler"
    by (simp_all add: by_value_handler_def logging_handler_def)
  have 3: "\<not> is_reference_v (Named Unqualified ''NetworkTimeout'')"
     "\<not> is_pointer_v (Named Unqualified ''NetworkTimeout'')"
    by (simp_all add: is_reference_v_def)
  have 4: "by_value_handler \<in> set (scenario_handlers @ [by_value_handler])" by simp
  from handler_parameter_shapes [OF 1 2, of "scenario_handlers @ [by_value_handler]" exact_try_catch "holding ''DiskFull''" "[]"] 3 4
  have "\<exists>e. handle exact_try_catch (holding ''DiskFull'') (scenario_handlers @ [by_value_handler]) [] = Inl e"
    by blast
  with 1 2 3 4 show ?thesis by blast
qed

section \<open>Typed extraction\<close>

text \<open>
  Claim C7. With \<^verbatim>\<open>detail::try_catch\<close> as the specification describes it, for a target
  type that is a reference or a pointer and a handle whose payload, if any, lives at a
  non-null address: \<^verbatim>\<open>try_catch<T>\<close> yields a view that tests true if and only if the
  handle holds a payload whose identity token is compatible with \<^verbatim>\<open>typeid(T)\<close>; that view
  is the address of the payload itself; the result is an optional of the pointer type
  when \<open>T\<close> is a pointer type and a plain, nullable pointer to the referred type when \<open>T\<close>
  is a reference type.
\<close>

theorem try_catch_view:
  assumes "is_reference_v T \<or> is_pointer_v T"
      and "\<forall>obj. ex = Some obj \<longrightarrow> obj_addr obj \<noteq> nullptr"
  shows "\<exists>v. try_catch (detail_try_catch compatible) ex T = Inr v
           \<and> (caught_value v \<noteq> None \<longleftrightarrow> (\<exists>obj. ex = Some obj \<and> compatible (typeid T) (obj_type obj)))
           \<and> (caught_value v \<noteq> None \<longrightarrow> caught_value v = Some (get_raw_ptr ex))
           \<and> (is_pointer_v T \<longrightarrow> try_catch_target T = optional_of T \<and> (\<exists>p. v = optional_view p))
           \<and> (is_reference_v T \<longrightarrow>
                 try_catch_target T = plain (Pointer Unqualified (remove_reference_t T))
                 \<and> (\<exists>a. v = pointer_view a))"
proof -
  have np: "is_reference_v T \<Longrightarrow> \<not> is_pointer_v T"
    by (cases T) (simp_all add: is_reference_v_def)
  show ?thesis
  proof (cases ex)
    case None
    with assms(1) np show ?thesis
      by (auto simp: try_catch_def try_catch_static_assert_def detail_try_catch_def empty_target_def
          try_catch_target_def add_pointer_t_def)
  next
    case (Some obj)
    with assms(2) have "obj_addr obj \<noteq> nullptr" by simp
    with Some assms(1) np show ?thesis
      by (auto simp: try_catch_def try_catch_static_assert_def detail_try_catch_def empty_target_def
          static_cast_target_def try_catch_target_def add_pointer_t_def get_raw_ptr_def
          detail_get_raw_ptr_def)
  qed
qed

theorem try_catch_view_witness:
  "is_reference_v (LRef (Named Const ''NetworkTimeout''))
   \<and> try_catch exact_try_catch (holding ''NetworkTimeout'') (LRef (Named Const ''NetworkTimeout''))
       = Inr (pointer_view 4096)
   \<and> try_catch exact_try_catch (holding ''DiskFull'') (LRef (Named Const ''NetworkTimeout''))
       = Inr (pointer_view nullptr)
   \<and> try_catch_target (LRef (Named Const ''NetworkTimeout'')) = plain (Pointer Unqualified (Named Const ''NetworkTimeout''))
   \<and> get_raw_ptr (holding ''NetworkTimeout'') = 4096"
proof -
  have 1: "is_reference_v (LRef (Named Const ''NetworkTimeout'')) \<or> is_pointer_v (LRef (Named Const ''NetworkTimeout''))"
    by (simp add: is_reference_v_def)
  have 2: "\<forall>obj. holding ''NetworkTimeout'' = Some obj \<longrightarrow> obj_addr obj \<noteq> nullptr"
    by (auto simp: holding_def nullptr_def)
  have 3: "get_raw_ptr (holding ''NetworkTimeout'') = 4096"
    by (simp add: get_raw_ptr_def detail_get_raw_ptr_def holding_def)
  have 4: "\<exists>obj. holding ''NetworkTimeout'' = Some obj \<and>
      (\<lambda>expected thrown. expected = thrown) (typeid (LRef (Named Const ''NetworkTimeout''))) (obj_type obj)"
    by (simp add: holding_def typeid_def)
  from try_catch_view [OF 1 2, of "\<lambda>expected thrown. expected = thrown"] 3 4
  have "try_catch exact_try_catch (holding ''NetworkTimeout'') (LRef (Named Const ''NetworkTimeout''))
       = Inr (pointer_view 4096)"
    by (auto simp: exact_try_catch_def is_reference_v_def split: if_splits)
  moreover have "try_catch exact_try_catch (holding ''DiskFull'') (LRef (Named Const ''NetworkTimeout''))
       = Inr (pointer_view nullptr)"
    by (simp add: scenario_defs)
  moreover have "try_catch_target (LRef (Named Const ''NetworkTimeout'')) = plain (Pointer Unqualified (Named Const ''NetworkTimeout''))"
    by (simp add: try_catch_target_def add_pointer_t_def)
  ultimately show ?thesis using 3 by (simp add: is_reference_v_def)
qed

section \<open>Unsupported handler shapes\<close>

text \<open>
  Claim C8. A chain that contains a handler whose deduced argument type is the catch-all
  tag, or a handler declared without parameters, is rejected when \<^verbatim>\<open>handle\<close> or
  \<^verbatim>\<open>handle_or_terminate\<close> is instantiated, for every handle and state: nothing runs.
  Alone, the variadic handler fails the \<^verbatim>\<open>static_assert\<close> of line 75 and the handler
  without parameters, whose argument type is \<^verbatim>\<open>void\<close>, the one of \<^verbatim>\<open>try_catch\<close>.
\<close>

theorem unsupported_handler_shapes:
  assumes "h \<in> set hs"
      and "ArgumentOf h = Inr catch_all_tag \<or> h_params h = []"
  shows "(\<exists>e. handle dtc ex hs s = Inl e)
       \<and> (\<exists>e. handle_or_terminate dtc ex hs rt s = Inl e)
       \<and> (h_params h = [] \<and> h_ellipsis h \<longrightarrow>
            ArgumentOf h = Inr catch_all_tag
            \<and> handle dtc ex [h] s = Inl static_assert_not_catch_all)
       \<and> (h_params h = [] \<and> \<not> h_ellipsis h \<longrightarrow>
            ArgumentOf h = Inr Void
            \<and> handle dtc ex [h] s = Inl static_assert_reference_or_pointer)"
proof -
  have bad: "\<not> (\<exists>arg. ArgumentOf h = Inr arg \<and> arg \<noteq> catch_all_tag \<and> try_catch_static_assert arg
        \<and> \<not> is_rvalue_reference_v arg)"
    using assms(2)
    by (cases "h_ellipsis h")
       (auto simp: ArgumentOf_def try_catch_static_assert_def is_reference_v_def)
  have v: "ArgumentOf h = Inr catch_all_tag \<and> handle dtc ex [h] s = Inl static_assert_not_catch_all"
    if "h_params h = []" "h_ellipsis h"
  proof -
    from that have a: "ArgumentOf h = Inr catch_all_tag" by (simp add: ArgumentOf_def)
    with CommonType_single [OF a] show ?thesis by simp
  qed
  have z: "ArgumentOf h = Inr Void \<and> handle dtc ex [h] s = Inl static_assert_reference_or_pointer"
    if "h_params h = []" "\<not> h_ellipsis h"
  proof -
    from that have a: "ArgumentOf h = Inr Void" by (simp add: ArgumentOf_def)
    with CommonType_single [OF a] show ?thesis
      by (simp add: catch_all_tag_def try_catch_static_assert_def is_reference_v_def)
  qed
  from handle_rejects [OF assms(1) bad] hot_rejects [OF assms(1) bad] v z
  show ?thesis by blast
qed

theorem unsupported_handler_shapes_witness:
  "variadic_handler \<in> set (scenario_handlers @ [variadic_handler])
   \<and> ArgumentOf variadic_handler = Inr catch_all_tag
   \<and> h_params variadic_handler = [] 
   \<and> (\<exists>e. handle exact_try_catch (holding ''DiskFull'') (scenario_handlers @ [variadic_handler]) [] = Inl e)
   \<and> handle exact_try_catch (holding ''DiskFull'') [variadic_handler] [] = Inl static_assert_not_catch_all"
proof -
  have 1: "variadic_handler \<in> set (scenario_handlers @ [variadic_handler])" by simp
  have 2: "ArgumentOf variadic_handler = Inr catch_all_tag" "h_params variadic_handler = []"
     "h_ellipsis variadic_handler"
    by (simp_all add: variadic_handler_def ArgumentOf_def)
  then have 3: "ArgumentOf variadic_handler = Inr catch_all_tag \<or> h_params variadic_handler = []" by simp
  from unsupported_handler_shapes [OF 1 3, of exact_try_catch "holding ''DiskFull''" "[]"] 2
  have "(\<exists>e. handle exact_try_catch (holding ''DiskFull'') (scenario_handlers @ [variadic_handler]) [] = Inl e)
   \<and> handle exact_try_catch (holding ''DiskFull'') [variadic_handler] [] = Inl static_assert_not_catch_all"
    by blast
  with 1 2 show ?thesis by blast
qed

section \<open>Re-raising and capturing\<close>

text \<open>
  Claim C9. With the runtime as the specification describes it: re-raising a handle that
  holds an object, catching what was raised and capturing the current exception there
  gives a handle with the same type identity token and the same payload address.
\<close>

theorem rethrow_then_capture:
  "\<exists>q. catch_all (rethrow_exception (Some obj))
           (\<lambda>caught. Returns (current_exception (enter_catch caught rt))) = Returns q
      \<and> exception_ptr_type q = exception_ptr_type (Some obj)
      \<and> get_raw_ptr q = get_raw_ptr (Some obj)
      \<and> q = Some obj"
  by (simp add: catch_all_def rethrow_exception_def std_rethrow_exception_def current_exception_def
      exception_ptr_from_tag_def std_current_exception_def enter_catch_def)

section \<open>Matching is keyed on the type identity\<close>

text \<open>
  Claim C10. For two target types that are references (lvalue or rvalue) to the same
  type up to cv-qualification, or pointer types that differ only in their top-level
  cv-qualifiers, \<^verbatim>\<open>typeid\<close> gives the same token, \<^verbatim>\<open>try_catch\<close> gives the same view, and it
  succeeds for one exactly when it succeeds for the other, whatever \<^verbatim>\<open>detail::try_catch\<close>
  does.
\<close>

theorem try_catch_keyed_on_typeid:
  assumes "(is_reference_v T1 \<and> is_reference_v T2
              \<and> remove_cv_t (remove_reference_t T1) = remove_cv_t (remove_reference_t T2))
         \<or> (is_pointer_v T1 \<and> is_pointer_v T2 \<and> remove_cv_t T1 = remove_cv_t T2)"
  shows "typeid T1 = typeid T2
       \<and> (\<exists>v. try_catch dtc ex T1 = Inr v \<and> try_catch dtc ex T2 = Inr v)
       \<and> ((\<exists>v. try_catch dtc ex T1 = Inr v \<and> caught_value v \<noteq> None)
            \<longleftrightarrow> (\<exists>v. try_catch dtc ex T2 = Inr v \<and> caught_value v \<noteq> None))"
proof -
  have np: "is_reference_v T \<Longrightarrow> \<not> is_pointer_v T" for T
    by (cases T) (simp_all add: is_reference_v_def)
  have pr: "is_pointer_v T \<Longrightarrow> remove_reference_t T = T" for T
    by (cases T) simp_all
  from assms have tid: "typeid T1 = typeid T2"
    by (auto simp: typeid_def pr)
  from assms have shape: "is_pointer_v T1 = is_pointer_v T2"
    using np by blast
  from assms have sa: "try_catch_static_assert T1" "try_catch_static_assert T2"
    by (auto simp: try_catch_static_assert_def)
  have "try_catch dtc ex T1 = try_catch dtc ex T2"
    using tid shape sa
    by (simp add: try_catch_def static_cast_target_def empty_target_def split: option.splits)
  moreover obtain v where "try_catch dtc ex T1 = Inr v"
    using try_catch_Inr [OF sa(1)] by blast
  ultimately show ?thesis using tid by metis
qed

theorem try_catch_keyed_on_typeid_witness:
  "is_reference_v (LRef (Named Const ''NetworkTimeout''))
   \<and> is_reference_v (RRef (Named Unqualified ''NetworkTimeout''))
   \<and> typeid (LRef (Named Const ''NetworkTimeout'')) = typeid (RRef (Named Unqualified ''NetworkTimeout''))
   \<and> try_catch exact_try_catch (holding ''NetworkTimeout'') (LRef (Named Const ''NetworkTimeout''))
       = Inr (pointer_view 4096)
   \<and> try_catch exact_try_catch (holding ''NetworkTimeout'') (RRef (Named Unqualified ''NetworkTimeout''))
       = Inr (pointer_view 4096)"
proof -
  have 1: "is_reference_v (LRef (Named Const ''NetworkTimeout''))"
      "is_reference_v (RRef (Named Unqualified ''NetworkTimeout''))"
    by (simp_all add: is_reference_v_def)
  have 2: "remove_cv_t (remove_reference_t (LRef (Named Const ''NetworkTimeout'')))
      = remove_cv_t (remove_reference_t (RRef (Named Unqualified ''NetworkTimeout'')))"
    by simp
  have 3: "try_catch exact_try_catch (holding ''NetworkTimeout'') (LRef (Named Const ''NetworkTimeout''))
       = Inr (pointer_view 4096)"
    by (simp add: scenario_defs)
  from try_catch_keyed_on_typeid [of "LRef (Named Const ''NetworkTimeout'')"
      "RRef (Named Unqualified ''NetworkTimeout'')" exact_try_catch "holding ''NetworkTimeout''"] 1 2 3
  have "typeid (LRef (Named Const ''NetworkTimeout'')) = typeid (RRef (Named Unqualified ''NetworkTimeout''))
     \<and> try_catch exact_try_catch (holding ''NetworkTimeout'') (RRef (Named Unqualified ''NetworkTimeout''))
       = Inr (pointer_view 4096)"
    by auto
  with 1 3 show ?thesis by simp
qed

end
